theory Spec2Isabelle
  imports Main "HOL-Library.Word"
begin

section \<open>TFM-hook: the webhook pipeline of index.js\<close>

text \<open>
  The theory embeds the functions of \<^verbatim>\<open>index.js\<close> that authenticate a webhook
  request and then pull the configured repositories and restart the configured Docker
  services: \<^verbatim>\<open>verifySignature\<close>, \<^verbatim>\<open>execAsync\<close>, \<^verbatim>\<open>pullRepository\<close>,
  \<^verbatim>\<open>restartDockerServices\<close>, \<^verbatim>\<open>handleWebhook\<close> and the handler of
  \<^verbatim>\<open>POST /hook/refresh\<close>.

  \<^item> An exception or a rejected promise is a value \<open>Inl e\<close> of a sum type; a
    \<^verbatim>\<open>try\<close>/\<^verbatim>\<open>catch\<close> is a case distinction on it.
  \<^item> \<^verbatim>\<open>await\<close> makes every step sequential, so the asynchronous functions are
    state-passing functions on a state that holds the outside world and the list of
    shell commands handed to \<^verbatim>\<open>exec\<close> so far.
  \<^item> The calls of \<^verbatim>\<open>log.info\<close>, \<^verbatim>\<open>log.error\<close> and \<^verbatim>\<open>log.debug\<close> only write
    to the console and take no part in the control flow; they are not modelled.
\<close>

subsection \<open>Thrown values and the outside world\<close>

text \<open>
  What the code can throw or reject with: the \<^verbatim>\<open>TypeError\<close> of destructuring
  \<^verbatim>\<open>null\<close> and of \<^verbatim>\<open>Buffer.from(undefined)\<close>, the \<^verbatim>\<open>RangeError\<close> of
  \<^verbatim>\<open>crypto.timingSafeEqual\<close>, \<^verbatim>\<open>new Error(message)\<close>, and the object
  \<^verbatim>\<open>{ error, stdout, stderr }\<close> that \<^verbatim>\<open>execAsync\<close> rejects with (its
  \<^verbatim>\<open>stdout\<close> and \<^verbatim>\<open>stderr\<close>).
\<close>

datatype thrown =
    TypeError
  | RangeError
  | Error string
  | Rejection string string

text \<open>
  What the callback of \<^verbatim>\<open>child_process.exec\<close> receives: no error, or an error,
  each with the captured \<^verbatim>\<open>stdout\<close> and \<^verbatim>\<open>stderr\<close>.
\<close>

datatype exec_result =
    ExecOk string string
  | ExecError string string

text \<open>
  The collaborators of the code, as parameters: the hexadecimal HMAC-SHA256 of a
  payload under a key (\<^verbatim>\<open>crypto.createHmac('sha256', key).update(payload).digest('hex')\<close>),
  \<^verbatim>\<open>fs.existsSync\<close> and \<^verbatim>\<open>child_process.exec\<close> on a world of any type \<open>'w\<close>
  (a command may change the world, and its outcome may depend on it), and
  \<^verbatim>\<open>JSON.stringify\<close> on request bodies of any type \<open>'b\<close>.
\<close>

record ('w, 'b) sys =
  hmacHex :: "string \<Rightarrow> string \<Rightarrow> string"
  existsSync :: "'w \<Rightarrow> string \<Rightarrow> bool"
  exec :: "'w \<Rightarrow> string \<Rightarrow> exec_result \<times> 'w"
  stringify :: "'b \<Rightarrow> string"

record 'w state =
  world :: 'w
  calls :: "string list"

subsection \<open>Configuration and results\<close>

text \<open>
  An entry of the \<^verbatim>\<open>REPOSITORIES\<close> array: \<^verbatim>\<open>JSON.parse\<close> can deliver
  \<^verbatim>\<open>null\<close>, or an object with the fields \<^verbatim>\<open>name\<close>, \<^verbatim>\<open>path\<close> and an optional
  \<^verbatim>\<open>branch\<close>.
\<close>

record repoConfig =
  name :: string
  path :: string
  branch :: "string option"

datatype repoEntry =
    RepoNull
  | RepoObj repoConfig

fun isObject :: "repoEntry \<Rightarrow> bool" where
  "isObject RepoNull = False"
| "isObject (RepoObj rc) = True"

text \<open>
  \<^verbatim>\<open>{ name: repo.name, success }\<close> and \<^verbatim>\<open>{ success: servicesSuccess }\<close>, the
  entries of \<^verbatim>\<open>results.repositories\<close> and \<^verbatim>\<open>results.services\<close>.
\<close>

datatype repoOutcome = RepoOutcome (outcome_name: string) (outcome_success: bool)

datatype serviceOutcome = ServiceOutcome (batch_success: bool)

record results =
  repositories :: "repoOutcome list"
  services :: "serviceOutcome list"
  success :: bool

record config =
  secret :: string
  repositories :: "repoEntry list"
  dockerServices :: "string list"

text \<open>\<^verbatim>\<open>secret: process.env.GITHUB_WEBHOOK_SECRET || ''\<close>\<close>

definition secretOfEnv :: "string option \<Rightarrow> string" where
  "secretOfEnv v = (case v of None \<Rightarrow> [] | Some s \<Rightarrow> s)"

subsection \<open>verifySignature\<close>

text \<open>
  \<^verbatim>\<open>Buffer.from(string)\<close> encodes in UTF-8. A \<^typ>\<open>char\<close> is one of the code units
  0 to 255 (the range of the characters of an HTTP header value in Node): below 128 it
  is one byte, from 128 on two. \<^verbatim>\<open>Buffer.from(undefined)\<close> throws a
  \<^verbatim>\<open>TypeError\<close>.
\<close>

type_synonym byte = "8 word"

definition utf8 :: "char \<Rightarrow> byte list" where
  "utf8 c =
     (let n = (of_char c :: nat)
      in if n < 128 then [of_nat n]
         else [of_nat (192 + n div 64), of_nat (128 + n mod 64)])"

definition Buffer_from :: "string option \<Rightarrow> thrown + byte list" where
  "Buffer_from v =
     (case v of
        None \<Rightarrow> Inl TypeError
      | Some s \<Rightarrow> Inr (concat (map utf8 s)))"

text \<open>
  \<^verbatim>\<open>crypto.timingSafeEqual(a, b)\<close> throws a \<^verbatim>\<open>RangeError\<close> when the two
  buffers differ in byte length, and compares them otherwise.
\<close>

definition timingSafeEqual :: "byte list \<Rightarrow> byte list \<Rightarrow> thrown + bool" where
  "timingSafeEqual a b =
     (if length a \<noteq> length b then Inl RangeError else Inr (a = b))"

text \<open>The string that \<^verbatim>\<open>verifySignature\<close> compares the header with.\<close>

definition digestOf :: "('w, 'b) sys \<Rightarrow> config \<Rightarrow> string \<Rightarrow> string" where
  "digestOf sys cfg payload = ''sha256='' @ hmacHex sys (secret cfg) payload"

definition verifySignature ::
  "('w, 'b) sys \<Rightarrow> config \<Rightarrow> string \<Rightarrow> string option \<Rightarrow> thrown + bool" where
  "verifySignature sys cfg payload signature =
     (if secret cfg = [] then Inr True
      else
        let digest = digestOf sys cfg payload
        in case Buffer_from signature of
             Inl e \<Rightarrow> Inl e
           | Inr a \<Rightarrow>
               (case Buffer_from (Some digest) of
                  Inl e \<Rightarrow> Inl e
                | Inr b \<Rightarrow> timingSafeEqual a b))"

subsection \<open>execAsync\<close>

text \<open>
  The command is handed to \<^verbatim>\<open>exec\<close> (and recorded in \<open>calls\<close>); the promise
  rejects when the callback receives an error and resolves with
  \<^verbatim>\<open>{ stdout, stderr }\<close> otherwise.
\<close>

definition execAsync ::
  "('w, 'b) sys \<Rightarrow> string \<Rightarrow> 'w state \<Rightarrow> (thrown + string \<times> string) \<times> 'w state" where
  "execAsync sys command s =
     (case exec sys (world s) command of
        (r, w') \<Rightarrow>
          (let s' = \<lparr>world = w', calls = calls s @ [command]\<rparr>
           in (case r of
                 ExecError out err \<Rightarrow> (Inl (Rejection out err), s')
               | ExecOk out err \<Rightarrow> (Inr (out, err), s'))))"

subsection \<open>pullRepository\<close>

definition pullCommand :: "string \<Rightarrow> string \<Rightarrow> string" where
  "pullCommand repoPath br = ''cd \"'' @ repoPath @ ''\" && git pull origin '' @ br"

text \<open>The body of the \<^verbatim>\<open>try\<close> block.\<close>

definition pullRepository_try ::
  "('w, 'b) sys \<Rightarrow> string \<Rightarrow> string \<Rightarrow> 'w state \<Rightarrow> (thrown + bool) \<times> 'w state" where
  "pullRepository_try sys repoPath br s =
     (if \<not> existsSync sys (world s) repoPath
      then (Inl (Error (''Repository path does not exist: '' @ repoPath)), s)
      else
        case execAsync sys (pullCommand repoPath br) s of
          (Inl e, s') \<Rightarrow> (Inl e, s')
        | (Inr result, s') \<Rightarrow> (Inr True, s'))"

text \<open>
  The destructuring of \<^verbatim>\<open>repoConfig\<close> stands before the \<^verbatim>\<open>try\<close>: on
  \<^verbatim>\<open>null\<close> it throws, and the promise of \<^verbatim>\<open>pullRepository\<close> rejects. Whatever the
  \<^verbatim>\<open>try\<close> block throws is caught and becomes \<^verbatim>\<open>false\<close>.
\<close>

fun pullRepository ::
  "('w, 'b) sys \<Rightarrow> repoEntry \<Rightarrow> 'w state \<Rightarrow> (thrown + bool) \<times> 'w state" where
  "pullRepository sys RepoNull s = (Inl TypeError, s)"
| "pullRepository sys (RepoObj rc) s =
     (let repoPath = path rc;
          br = (case branch rc of None \<Rightarrow> ''main'' | Some b \<Rightarrow> b)
      in case pullRepository_try sys repoPath br s of
           (Inl error, s') \<Rightarrow> (Inr False, s')
         | (Inr v, s') \<Rightarrow> (Inr v, s'))"

subsection \<open>restartDockerServices\<close>

definition restartCommand :: "string \<Rightarrow> string" where
  "restartCommand service = ''docker restart '' @ service"

text \<open>The \<^verbatim>\<open>for\<close> loop inside the \<^verbatim>\<open>try\<close> block: a rejection leaves the loop.\<close>

fun restartLoop ::
  "('w, 'b) sys \<Rightarrow> string list \<Rightarrow> 'w state \<Rightarrow> (thrown + unit) \<times> 'w state" where
  "restartLoop sys [] s = (Inr (), s)"
| "restartLoop sys (service # rest) s =
     (case execAsync sys (restartCommand service) s of
        (Inl e, s') \<Rightarrow> (Inl e, s')
      | (Inr result, s') \<Rightarrow> restartLoop sys rest s')"

definition restartDockerServices ::
  "('w, 'b) sys \<Rightarrow> string list \<Rightarrow> 'w state \<Rightarrow> bool \<times> 'w state" where
  "restartDockerServices sys servs s =
     (if length servs = 0 then (True, s)
      else
        case restartLoop sys servs s of
          (Inl error, s') \<Rightarrow> (False, s')
        | (Inr u, s') \<Rightarrow> (True, s'))"

subsection \<open>handleWebhook\<close>

text \<open>
  The loop over \<^verbatim>\<open>config.repositories\<close>, on the \<^verbatim>\<open>results\<close> object built so far.
  A rejected \<^verbatim>\<open>pullRepository\<close> is not caught here.
\<close>

fun entryName :: "repoEntry \<Rightarrow> thrown + string" where
  "entryName RepoNull = Inl TypeError"
| "entryName (RepoObj rc) = Inr (name rc)"

fun pullLoop ::
  "('w, 'b) sys \<Rightarrow> repoEntry list \<Rightarrow> results \<Rightarrow> 'w state \<Rightarrow> (thrown + results) \<times> 'w state" where
  "pullLoop sys [] res s = (Inr res, s)"
| "pullLoop sys (repo # rest) res s =
     (case pullRepository sys repo s of
        (Inl e, s') \<Rightarrow> (Inl e, s')
      | (Inr ok, s') \<Rightarrow>
          (case entryName repo of
             Inl e \<Rightarrow> (Inl e, s')
           | Inr n \<Rightarrow>
               let res1 = res\<lparr>results.repositories :=
                                results.repositories res @ [RepoOutcome n ok]\<rparr>;
                   res2 = (if \<not> ok then res1\<lparr>success := False\<rparr> else res1)
               in pullLoop sys rest res2 s'))"

definition handleWebhook ::
  "('w, 'b) sys \<Rightarrow> config \<Rightarrow> 'b \<Rightarrow> 'w state \<Rightarrow> (thrown + results) \<times> 'w state" where
  "handleWebhook sys cfg payload s =
     (let res0 = \<lparr>results.repositories = [], services = [], success = True\<rparr>
      in case pullLoop sys (config.repositories cfg) res0 s of
           (Inl e, s1) \<Rightarrow> (Inl e, s1)
         | (Inr res1, s1) \<Rightarrow>
             (case restartDockerServices sys (dockerServices cfg) s1 of
                (servicesSuccess, s2) \<Rightarrow>
                  let res2 = res1\<lparr>services := services res1 @ [ServiceOutcome servicesSuccess]\<rparr>;
                      res3 = (if \<not> servicesSuccess then res2\<lparr>success := False\<rparr> else res2)
                  in (Inr res3, s2)))"

subsection \<open>The handler of POST /hook/refresh\<close>

text \<open>
  Of a request the handler reads the header \<^verbatim>\<open>x-hub-signature-256\<close>
  (\<^verbatim>\<open>undefined\<close> when the request has none) and the parsed body.
\<close>

record 'b request =
  signatureHeader :: "string option"
  body :: 'b

datatype responseBody =
    ErrorBody string
  | ResultsBody string results
  | InternalErrorBody string thrown

datatype response = Response (status: nat) (json: responseBody)

text \<open>\<^verbatim>\<open>undefined\<close> and the empty string are falsy.\<close>

fun truthy :: "string option \<Rightarrow> bool" where
  "truthy None = False"
| "truthy (Some v) = (v \<noteq> [])"

text \<open>
  The \<^verbatim>\<open>try\<close>/\<^verbatim>\<open>catch\<close> of the handler: the result of \<^verbatim>\<open>handleWebhook\<close> is
  answered with 200 or 500 by its \<^verbatim>\<open>success\<close> flag; what \<^verbatim>\<open>handleWebhook\<close>
  throws is caught and answered with status 500 and an \<^verbatim>\<open>error\<close> field.
\<close>

definition hookRefresh_try ::
  "('w, 'b) sys \<Rightarrow> config \<Rightarrow> 'b request \<Rightarrow> 'w state \<Rightarrow> (thrown + response) \<times> 'w state" where
  "hookRefresh_try sys cfg req s =
     (case handleWebhook sys cfg (body req) s of
        (Inr res, s') \<Rightarrow>
          (let statusCode = (if success res then 200 else 500)
           in (Inr (Response statusCode
                      (ResultsBody (if success res then ''Webhook processed successfully''
                                    else ''Webhook processed with errors'') res)), s'))
      | (Inl error, s') \<Rightarrow>
          (Inr (Response 500 (InternalErrorBody ''Internal server error'' error)), s'))"

text \<open>
  The handler. \<^verbatim>\<open>signature && !verifySignature(payload, signature)\<close> calls
  \<^verbatim>\<open>verifySignature\<close> only for a truthy header value. The test stands before the
  \<^verbatim>\<open>try\<close>: what \<^verbatim>\<open>verifySignature\<close> throws leaves the handler (\<open>Inl\<close>), and
  no response is written by it.
\<close>

definition hookRefresh ::
  "('w, 'b) sys \<Rightarrow> config \<Rightarrow> 'b request \<Rightarrow> 'w state \<Rightarrow> (thrown + response) \<times> 'w state" where
  "hookRefresh sys cfg req s =
     (let signature = signatureHeader req;
          payload = stringify sys (body req)
      in if truthy signature
         then (case verifySignature sys cfg payload signature of
                 Inl e \<Rightarrow> (Inl e, s)
               | Inr valid \<Rightarrow>
                   if \<not> valid
                   then (Inr (Response 401 (ErrorBody ''Invalid signature'')), s)
                   else hookRefresh_try sys cfg req s)
         else hookRefresh_try sys cfg req s)"

section \<open>Notions used to state the properties\<close>

text \<open>
  The state after the repositories of a list have been pulled one after the other, and
  the entries that this records: the name of each repository with the outcome of its own
  \<open>pullRepository\<close> call, made on the state its predecessors left.
\<close>

definition afterPulls :: "('w, 'b) sys \<Rightarrow> repoEntry list \<Rightarrow> 'w state \<Rightarrow> 'w state" where
  "afterPulls sys repos s = foldl (\<lambda>t repo. snd (pullRepository sys repo t)) s repos"

fun pullOutcomes :: "('w, 'b) sys \<Rightarrow> repoEntry list \<Rightarrow> 'w state \<Rightarrow> repoOutcome list" where
  "pullOutcomes sys [] s = []"
| "pullOutcomes sys (RepoNull # rest) s = []"
| "pullOutcomes sys (RepoObj rc # rest) s =
     RepoOutcome (name rc) (fst (pullRepository sys (RepoObj rc) s) = Inr True)
       # pullOutcomes sys rest (snd (pullRepository sys (RepoObj rc) s))"

text \<open>
  What the world answers when a list of commands is run one after the other, every one
  of them, and whether an answer is a success.
\<close>

fun isOk :: "exec_result \<Rightarrow> bool" where
  "isOk (ExecOk out err) = True"
| "isOk (ExecError out err) = False"

fun runCommands :: "('w, 'b) sys \<Rightarrow> string list \<Rightarrow> 'w \<Rightarrow> exec_result list \<times> 'w" where
  "runCommands sys [] w = ([], w)"
| "runCommands sys (c # cs) w =
     (case exec sys w c of
        (r, w1) \<Rightarrow> (case runCommands sys cs w1 of (rs, w2) \<Rightarrow> (r # rs, w2)))"

text \<open>The specification's \<open>overallSucceeded\<close>: the conjunction of every recorded outcome.\<close>

definition overallSucceeded :: "repoOutcome list \<Rightarrow> serviceOutcome list \<Rightarrow> bool" where
  "overallSucceeded reps servs = (list_all outcome_success reps \<and> list_all batch_success servs)"

section \<open>A test installation\<close>

text \<open>
  A stub of the collaborators: the HMAC of the body \<^verbatim>\<open>{}\<close> under the key
  \<^verbatim>\<open>s3cret\<close>, a file system on which every path but \<^verbatim>\<open>/srv/missing\<close> exists,
  and a shell in which every command succeeds but the restart of \<^verbatim>\<open>api-service\<close>.
\<close>

definition testSys :: "(unit, string) sys" where
  "testSys =
     \<lparr>hmacHex = (\<lambda>key payload.
         ''adbde1ce40c89c14215687d5d762a47df6dfaefcfad61e2e86718ffc8498571b''),
      existsSync = (\<lambda>w p. p \<noteq> ''/srv/missing''),
      exec = (\<lambda>w command.
         (if command = ''docker restart api-service''
          then ExecError [] ''Error response from daemon: No such container: api-service''
          else ExecOk ''done'' [], w)),
      stringify = (\<lambda>b. b)\<rparr>"

definition myApp :: repoConfig where
  "myApp = \<lparr>name = ''my-app'', path = ''/srv/my-app'', branch = None\<rparr>"

definition myService :: repoConfig where
  "myService = \<lparr>name = ''my-service'', path = ''/srv/missing'', branch = Some ''develop''\<rparr>"

definition docs :: repoConfig where
  "docs = \<lparr>name = ''docs'', path = ''/srv/docs'', branch = Some ''develop''\<rparr>"

definition testConfig :: config where
  "testConfig =
     \<lparr>secret = ''s3cret'',
      config.repositories = [RepoObj myApp, RepoObj myService, RepoObj docs],
      dockerServices = [''web-service'', ''api-service'', ''database'']\<rparr>"

definition smallConfig :: config where
  "smallConfig =
     \<lparr>secret = ''s3cret'',
      config.repositories = [RepoObj myApp],
      dockerServices = [''web-service'']\<rparr>"

text \<open>
  A disk on which a path holds a regular file, a directory or nothing.
  \<^verbatim>\<open>fs.existsSync\<close> is true of a path that holds either.
\<close>

datatype fsEntry = File | Directory

type_synonym disk = "string \<Rightarrow> fsEntry option"

definition isDirectory :: "disk \<Rightarrow> string \<Rightarrow> bool" where
  "isDirectory d p = (d p = Some Directory)"

definition diskExistsSync :: "disk \<Rightarrow> string \<Rightarrow> bool" where
  "diskExistsSync d p = (d p \<noteq> None)"

definition notesDisk :: disk where
  "notesDisk =
     (\<lambda>p. if p = ''/srv/notes.txt'' then Some File
          else if p = ''/srv/my-app'' then Some Directory
          else None)"

definition diskSys :: "(disk, string) sys" where
  "diskSys =
     \<lparr>hmacHex = (\<lambda>key payload.
         ''adbde1ce40c89c14215687d5d762a47df6dfaefcfad61e2e86718ffc8498571b''),
      existsSync = diskExistsSync,
      exec = (\<lambda>w command.
         (if command = ''cd \"/srv/notes.txt\" && git pull origin main''
          then ExecError [] ''/bin/sh: 1: cd: can't cd to /srv/notes.txt''
          else ExecOk ''done'' [], w)),
      stringify = (\<lambda>b. b)\<rparr>"

definition notesRepo :: repoConfig where
  "notesRepo = \<lparr>name = ''notes'', path = ''/srv/notes.txt'', branch = None\<rparr>"

definition state0 :: "unit state" where
  "state0 = \<lparr>world = (), calls = []\<rparr>"

lemmas test_defs =
  testSys_def myApp_def myService_def docs_def testConfig_def smallConfig_def state0_def

lemmas code_defs =
  verifySignature_def digestOf_def Buffer_from_def timingSafeEqual_def utf8_def
  execAsync_def pullCommand_def pullRepository_try_def restartCommand_def
  restartDockerServices_def handleWebhook_def hookRefresh_try_def hookRefresh_def Let_def

section \<open>Auxiliary facts\<close>

lemma pullRepository_obj: "\<exists>ok. fst (pullRepository sys (RepoObj rc) s) = Inr ok"
  by (cases "pullRepository_try sys (path rc)
               (case branch rc of None \<Rightarrow> ''main'' | Some b \<Rightarrow> b) s")
     (auto simp: Let_def split: sum.splits)

lemma afterPulls_Nil: "afterPulls sys [] s = s"
  by (simp add: afterPulls_def)

lemma afterPulls_Cons:
  "afterPulls sys (e # es) s = afterPulls sys es (snd (pullRepository sys e s))"
  by (simp add: afterPulls_def)

lemma afterPulls_append:
  "afterPulls sys (xs @ ys) s = afterPulls sys ys (afterPulls sys xs s)"
  by (simp add: afterPulls_def)

text \<open>
  On a list of objects the loop of \<open>handleWebhook\<close> never leaves early: it appends one
  entry per repository and ends in the state after all pulls.
\<close>

lemma pullLoop_objects:
  "\<forall>e \<in> set repos. isObject e \<Longrightarrow>
   pullLoop sys repos res s =
     (Inr (res\<lparr>results.repositories := results.repositories res @ pullOutcomes sys repos s,
                success := (success res \<and> list_all outcome_success (pullOutcomes sys repos s))\<rparr>),
      afterPulls sys repos s)"
proof (induction repos arbitrary: res s)
  case Nil
  then show ?case by (simp add: afterPulls_Nil)
next
  case (Cons e es)
  then obtain rc where e: "e = RepoObj rc" by (cases e) auto
  obtain ok s1 where p: "pullRepository sys (RepoObj rc) s = (Inr ok, s1)"
    using pullRepository_obj [of sys rc s] by (cases "pullRepository sys (RepoObj rc) s") auto
  from Cons.prems have es: "\<forall>e \<in> set es. isObject e" by simp
  show ?case
    unfolding e pullLoop.simps p pullOutcomes.simps afterPulls_Cons
    by (cases ok) (simp_all add: Cons.IH [OF es] Let_def)
qed

lemma pullLoop_Inr_objects:
  "pullLoop sys repos res s = (Inr r, s') \<Longrightarrow> \<forall>e \<in> set repos. isObject e"
proof (induction repos arbitrary: res s)
  case Nil
  then show ?case by simp
next
  case (Cons e es)
  show ?case
  proof (cases e)
    case RepoNull
    with Cons.prems show ?thesis by simp
  next
    case (RepoObj rc)
    with Cons show ?thesis
      by (auto simp: Let_def simp del: pullRepository.simps
               split: prod.splits sum.splits if_splits)
  qed
qed

lemma length_pullOutcomes:
  "\<forall>e \<in> set repos. isObject e \<Longrightarrow> length (pullOutcomes sys repos s) = length repos"
proof (induction repos arbitrary: s)
  case Nil
  then show ?case by simp
next
  case (Cons e es)
  then show ?case by (cases e) (simp_all del: pullRepository.simps)
qed

lemma pullOutcomes_append:
  "\<forall>e \<in> set xs. isObject e \<Longrightarrow>
   pullOutcomes sys (xs @ ys) s
     = pullOutcomes sys xs s @ pullOutcomes sys ys (afterPulls sys xs s)"
proof (induction xs arbitrary: s)
  case Nil
  then show ?case by (simp add: afterPulls_Nil)
next
  case (Cons e es)
  then show ?case by (cases e) (simp_all add: afterPulls_Cons del: pullRepository.simps)
qed

lemma pullOutcomes_nth:
  assumes "\<forall>e \<in> set repos. isObject e" "i < length repos"
  shows "entryName (repos ! i) = Inr (outcome_name (pullOutcomes sys repos s ! i)) \<and>
         fst (pullRepository sys (repos ! i) (afterPulls sys (take i repos) s))
           = Inr (outcome_success (pullOutcomes sys repos s ! i))"
proof -
  from assms(2) have split: "repos = take i repos @ (repos ! i) # drop (Suc i) repos"
    by (simp add: id_take_nth_drop)
  from assms have pre: "\<forall>e \<in> set (take i repos). isObject e"
    by (meson in_set_takeD)
  from assms have "isObject (repos ! i)" by simp
  then obtain rc where rc: "repos ! i = RepoObj rc"
    by (cases "repos ! i") simp_all
  have len: "length (pullOutcomes sys (take i repos) s) = i"
    using length_pullOutcomes [OF pre] assms(2) by simp
  have "pullOutcomes sys repos s ! i =
        (pullOutcomes sys (take i repos) s
          @ pullOutcomes sys (repos ! i # drop (Suc i) repos) (afterPulls sys (take i repos) s)) ! i"
    using pullOutcomes_append [OF pre, of sys "repos ! i # drop (Suc i) repos" s] split by simp
  also have "\<dots> = RepoOutcome (name rc)
        (fst (pullRepository sys (RepoObj rc) (afterPulls sys (take i repos) s)) = Inr True)"
    using len by (simp add: nth_append rc del: pullRepository.simps)
  finally have nth: "pullOutcomes sys repos s ! i = RepoOutcome (name rc)
        (fst (pullRepository sys (RepoObj rc) (afterPulls sys (take i repos) s)) = Inr True)" .
  obtain ok where
    ok: "fst (pullRepository sys (RepoObj rc) (afterPulls sys (take i repos) s)) = Inr ok"
    using pullRepository_obj by blast
  show ?thesis
    unfolding nth rc using ok by simp
qed

text \<open>
  A run of \<open>handleWebhook\<close> that returns: every entry was an object, and the result is
  made of the outcomes of the pulls and of the one outcome of the restart batch.
\<close>

lemma handleWebhook_Inr:
  assumes "handleWebhook sys cfg payload s = (Inr res, s')"
  shows "\<exists>ok. (\<forall>e \<in> set (config.repositories cfg). isObject e) \<and>
          restartDockerServices sys (dockerServices cfg)
             (afterPulls sys (config.repositories cfg) s) = (ok, s') \<and>
          res = \<lparr>results.repositories = pullOutcomes sys (config.repositories cfg) s,
                 services = [ServiceOutcome ok],
                 success = (list_all outcome_success
                              (pullOutcomes sys (config.repositories cfg) s) \<and> ok)\<rparr>"
proof -
  let ?repos = "config.repositories cfg"
  let ?res0 = "\<lparr>results.repositories = [], services = [], success = True\<rparr>"
  from assms obtain r1 s1 where pl: "pullLoop sys ?repos ?res0 s = (Inr r1, s1)"
    by (cases "pullLoop sys ?repos ?res0 s")
       (auto simp: handleWebhook_def Let_def split: sum.splits)
  have objs: "\<forall>e \<in> set ?repos. isObject e"
    by (rule pullLoop_Inr_objects [OF pl])
  obtain ok s2 where
    rd: "restartDockerServices sys (dockerServices cfg) (afterPulls sys ?repos s) = (ok, s2)"
    by (cases "restartDockerServices sys (dockerServices cfg) (afterPulls sys ?repos s)")
  from assms show ?thesis
    by (cases ok) (auto simp: handleWebhook_def Let_def pullLoop_objects [OF objs] rd objs)
qed

text \<open>
  While every command answers with success, the restart loop goes on: the services of
  a succeeding prefix are restarted, each command is recorded, and the loop continues
  with the rest.
\<close>

lemma restartLoop_prefix_ok:
  "list_all isOk (fst (runCommands sys (map restartCommand pre) (world s))) \<Longrightarrow>
   restartLoop sys (pre @ rest) s =
     restartLoop sys rest
       \<lparr>world = snd (runCommands sys (map restartCommand pre) (world s)),
        calls = calls s @ map restartCommand pre\<rparr>"
proof (induction pre arbitrary: s)
  case Nil
  then show ?case by (cases s) simp
next
  case (Cons p ps)
  obtain r w1 where ex: "exec sys (world s) (restartCommand p) = (r, w1)"
    by (cases "exec sys (world s) (restartCommand p)")
  obtain rs w2 where rc: "runCommands sys (map restartCommand ps) w1 = (rs, w2)"
    by (cases "runCommands sys (map restartCommand ps) w1")
  from Cons.prems ex rc obtain out err where r: "r = ExecOk out err" and rs: "list_all isOk rs"
    by (cases r) simp_all
  let ?s1 = "\<lparr>world = w1, calls = calls s @ [restartCommand p]\<rparr>"
  have step: "execAsync sys (restartCommand p) s = (Inr (out, err), ?s1)"
    by (simp add: execAsync_def ex r)
  have "list_all isOk (fst (runCommands sys (map restartCommand ps) (world ?s1)))"
    using rs rc by simp
  from Cons.IH [OF this] show ?case
    by (simp add: step ex rc)
qed

section \<open>The test installation, evaluated\<close>

lemma verifySignature_valid_example:
  "verifySignature testSys testConfig ''{}''
     (Some ''sha256=adbde1ce40c89c14215687d5d762a47df6dfaefcfad61e2e86718ffc8498571b'')
   = Inr True"
  by (simp add: test_defs code_defs)

lemma verifySignature_wrong_same_length_example:
  "verifySignature testSys testConfig ''{}''
     (Some ''sha256=adbde1ce40c89c14215687d5d762a47df6dfaefcfad61e2e86718ffc8498571c'')
   = Inr False"
  by (simp add: test_defs code_defs)

lemma handleWebhook_example:
  "handleWebhook testSys testConfig ''{}'' state0 =
     (Inr \<lparr>results.repositories =
              [RepoOutcome ''my-app'' True, RepoOutcome ''my-service'' False,
               RepoOutcome ''docs'' True],
            services = [ServiceOutcome False], success = False\<rparr>,
      \<lparr>world = (),
       calls = [''cd \"/srv/my-app\" && git pull origin main'',
                ''cd \"/srv/docs\" && git pull origin develop'',
                ''docker restart web-service'', ''docker restart api-service'']\<rparr>)"
  by (simp add: test_defs code_defs)

lemma hookRefresh_null_entry_example:
  "hookRefresh testSys (smallConfig\<lparr>config.repositories := [RepoNull]\<rparr>)
     \<lparr>signatureHeader = None, body = ''{}''\<rparr> state0
   = (Inr (Response 500 (InternalErrorBody ''Internal server error'' TypeError)), state0)"
  by (simp add: test_defs code_defs)

section \<open>Signature verification\<close>

text \<open>
  What \<open>verifySignature\<close> does under a configured secret, for a header value: it throws
  exactly when the UTF-8 encodings of the value and of the digest string differ in
  length, and compares the two otherwise.
\<close>

lemma verifySignature_configured:
  "secret cfg \<noteq> [] \<Longrightarrow>
   verifySignature sys cfg payload (Some v) =
     (if length (concat (map utf8 v)) \<noteq> length (concat (map utf8 (digestOf sys cfg payload)))
      then Inl RangeError
      else Inr (concat (map utf8 v) = concat (map utf8 (digestOf sys cfg payload))))"
  by (simp add: verifySignature_def Buffer_from_def timingSafeEqual_def)

text \<open>
  C7. When the environment variable of the secret is unset or empty, the configured
  secret is the empty string and \<open>verifySignature\<close> returns \<^verbatim>\<open>true\<close> for every payload
  and every signature, the absent one included, whatever the HMAC function is: no
  digest takes part in the result.
\<close>

theorem verifySignature_no_secret:
  assumes "secret cfg = secretOfEnv v" and "v = None \<or> v = Some []"
  shows "verifySignature sys cfg payload signature = Inr True"
  using assms by (auto simp: verifySignature_def secretOfEnv_def)

theorem verifySignature_no_secret_witness:
  "secret (testConfig\<lparr>secret := []\<rparr>) = secretOfEnv None \<and>
   ((None :: string option) = None \<or> (None :: string option) = Some []) \<and>
   verifySignature testSys (testConfig\<lparr>secret := []\<rparr>) ''{}'' (Some ''sha256=deadbeef'')
     = Inr True"
proof -
  have h1: "secret (testConfig\<lparr>secret := []\<rparr>) = secretOfEnv None"
    by (simp add: secretOfEnv_def)
  have h2: "(None :: string option) = None \<or> (None :: string option) = Some []"
    by simp
  note c = verifySignature_no_secret [OF h1 h2, where sys = testSys and payload = "''{}''"
             and signature = "Some ''sha256=deadbeef''"]
  from h1 h2 c show ?thesis by blast
qed

text \<open>
  C2. Under a configured secret, a signature whose length differs from the length of
  the digest string: the specification asks for the result \<^verbatim>\<open>false\<close> and no
  exception. With
  the secret \<^verbatim>\<open>s3cret\<close> and the 15 characters \<^verbatim>\<open>sha256=deadbeef\<close> against the 71 of
  the digest string, \<open>verifySignature\<close> throws the \<^verbatim>\<open>RangeError\<close> of
  \<^verbatim>\<open>crypto.timingSafeEqual\<close>.
\<close>

theorem verifySignature_length_mismatch_throws:
  "length ''sha256=deadbeef'' \<noteq> length (digestOf testSys testConfig ''{}'') \<and>
   verifySignature testSys testConfig ''{}'' (Some ''sha256=deadbeef'') = Inl RangeError"
  by (simp add: test_defs code_defs)

section \<open>The handler\<close>

text \<open>
  What the handler does with a header value that is not the empty string: a value that
  \<open>verifySignature\<close> does not accept never starts a command, and is answered with 401
  when \<open>verifySignature\<close> returns \<^verbatim>\<open>false\<close>.
\<close>

lemma hookRefresh_not_accepted:
  assumes "truthy (signatureHeader req)"
    and "verifySignature sys cfg (stringify sys (body req)) (signatureHeader req) \<noteq> Inr True"
  shows "snd (hookRefresh sys cfg req s) = s"
  using assms by (auto simp: hookRefresh_def Let_def split: sum.splits)

lemma hookRefresh_returns_false:
  assumes "truthy (signatureHeader req)"
    and "verifySignature sys cfg (stringify sys (body req)) (signatureHeader req) = Inr False"
  shows "hookRefresh sys cfg req s = (Inr (Response 401 (ErrorBody ''Invalid signature'')), s)"
  using assms by (simp add: hookRefresh_def Let_def)

text \<open>
  Without a header value, or with the empty string as its value, the handler runs as if
  no secret were configured.
\<close>

lemma handleWebhook_secret:
  "handleWebhook sys (cfg\<lparr>secret := k\<rparr>) payload s = handleWebhook sys cfg payload s"
  by (simp add: handleWebhook_def split: prod.splits sum.splits)

lemma hookRefresh_no_signature:
  assumes "\<not> truthy (signatureHeader req)"
  shows "hookRefresh sys cfg req s = hookRefresh sys (cfg\<lparr>secret := []\<rparr>) req s"
  using assms by (simp add: hookRefresh_def hookRefresh_try_def handleWebhook_secret Let_def)

text \<open>
  C1. A secret is configured and the request has no \<^verbatim>\<open>x-hub-signature-256\<close> header:
  the specification asks for 401 and no operation. The handler tests the header, not the secret,
  before it verifies: in the test installation the request is answered with 200, after the
  repository was pulled and the service restarted.
\<close>

theorem hookRefresh_missing_header_accepted:
  "hookRefresh testSys smallConfig \<lparr>signatureHeader = None, body = ''{}''\<rparr> state0 =
     (Inr (Response 200 (ResultsBody ''Webhook processed successfully''
        \<lparr>results.repositories = [RepoOutcome ''my-app'' True],
           services = [ServiceOutcome True], success = True\<rparr>)),
      \<lparr>world = (),
       calls = [''cd \"/srv/my-app\" && git pull origin main'',
                ''docker restart web-service'']\<rparr>)"
  by (simp add: test_defs code_defs)

text \<open>
  C3. A request whose signature header is present and wrong: the specification asks for
  401 and no command. With the header value \<^verbatim>\<open>sha256=deadbeef\<close> no command is run, but the
  handler writes no 401: the \<^verbatim>\<open>RangeError\<close> of \<open>verifySignature\<close> is thrown before
  the \<^verbatim>\<open>try\<close> block and leaves the handler.
\<close>

theorem hookRefresh_wrong_signature_throws:
  "hookRefresh testSys smallConfig
     \<lparr>signatureHeader = Some ''sha256=deadbeef'', body = ''{}''\<rparr> state0
   = (Inl RangeError, state0)"
  by (simp add: test_defs code_defs)

section \<open>Orchestration\<close>

text \<open>
  C4. When the configured repository entries are N repository objects, \<open>handleWebhook\<close>
  returns a result whose \<open>repositories\<close> list has N entries; the i-th entry carries the
  name of the i-th configured repository and the outcome of that repository's own
  \<open>pullRepository\<close> call, made after the pulls of its predecessors whatever their
  outcomes were. No entry is skipped after a failure.
\<close>

theorem handleWebhook_repositories:
  assumes objects: "list_all isObject (config.repositories cfg)"
  shows "\<exists>res s'. handleWebhook sys cfg payload s = (Inr res, s') \<and>
           length (results.repositories res) = length (config.repositories cfg) \<and>
           (\<forall>i < length (config.repositories cfg).
              entryName (config.repositories cfg ! i)
                = Inr (outcome_name (results.repositories res ! i)) \<and>
              fst (pullRepository sys (config.repositories cfg ! i)
                     (afterPulls sys (take i (config.repositories cfg)) s))
                = Inr (outcome_success (results.repositories res ! i)))"
proof -
  let ?repos = "config.repositories cfg"
  from objects have assms: "\<forall>e \<in> set ?repos. isObject e"
    by (simp add: list_all_iff)
  obtain res s' where hw: "handleWebhook sys cfg payload s = (Inr res, s')"
    and reps: "results.repositories res = pullOutcomes sys ?repos s"
    by (cases "restartDockerServices sys (dockerServices cfg) (afterPulls sys ?repos s)")
       (simp add: handleWebhook_def pullLoop_objects [OF assms] Let_def)
  have "length (results.repositories res) = length ?repos"
    using reps length_pullOutcomes [OF assms] by simp
  moreover have "\<forall>i < length ?repos.
      entryName (?repos ! i) = Inr (outcome_name (results.repositories res ! i)) \<and>
      fst (pullRepository sys (?repos ! i) (afterPulls sys (take i ?repos) s))
        = Inr (outcome_success (results.repositories res ! i))"
    unfolding reps using pullOutcomes_nth [OF assms] by blast
  ultimately show ?thesis using hw by blast
qed

theorem handleWebhook_repositories_witness:
  "list_all isObject (config.repositories testConfig) \<and>
   (\<exists>res s'. handleWebhook testSys testConfig ''{}'' state0 = (Inr res, s') \<and>
      length (results.repositories res) = 3 \<and>
      (\<forall>i < 3.
         entryName (config.repositories testConfig ! i)
           = Inr (outcome_name (results.repositories res ! i)) \<and>
         fst (pullRepository testSys (config.repositories testConfig ! i)
                (afterPulls testSys (take i (config.repositories testConfig)) state0))
           = Inr (outcome_success (results.repositories res ! i))))"
proof -
  have h: "list_all isObject (config.repositories testConfig)"
    by (simp add: testConfig_def)
  have n: "length (config.repositories testConfig) = 3"
    by (simp add: testConfig_def)
  note c = handleWebhook_repositories [OF h, where sys = testSys and payload = "''{}''"
             and s = state0]
  from h c show ?thesis unfolding n by (rule conjI)
qed

text \<open>
  C5. In a batch of services in which the restarts before the k-th succeed and the
  restart of the k-th fails, \<open>restartDockerServices\<close> returns \<^verbatim>\<open>false\<close>, and the
  commands it has run are the restarts of the first k services and no other: nothing is
  run for a service after the k-th.
\<close>

theorem restartDockerServices_short_circuit:
  assumes "list_all isOk (fst (runCommands sys (map restartCommand pre) (world s)))"
    and "\<not> isOk (fst (exec sys (snd (runCommands sys (map restartCommand pre) (world s)))
                        (restartCommand k)))"
  shows "fst (restartDockerServices sys (pre @ k # post) s) = False \<and>
         calls (snd (restartDockerServices sys (pre @ k # post) s))
           = calls s @ map restartCommand (pre @ [k]) \<and>
         world (snd (restartDockerServices sys (pre @ k # post) s))
           = snd (exec sys (snd (runCommands sys (map restartCommand pre) (world s)))
                    (restartCommand k))"
proof -
  let ?w1 = "snd (runCommands sys (map restartCommand pre) (world s))"
  let ?s1 = "\<lparr>world = ?w1, calls = calls s @ map restartCommand pre\<rparr>"
  obtain r w2 where ex: "exec sys ?w1 (restartCommand k) = (r, w2)"
    by (cases "exec sys ?w1 (restartCommand k)")
  with assms(2) obtain out err where r: "r = ExecError out err"
    by (cases r) simp_all
  have "restartLoop sys (pre @ k # post) s = restartLoop sys (k # post) ?s1"
    by (rule restartLoop_prefix_ok [OF assms(1)])
  also have "\<dots> = (Inl (Rejection out err),
                    \<lparr>world = w2, calls = calls s @ map restartCommand pre @ [restartCommand k]\<rparr>)"
    by (simp add: execAsync_def ex r)
  finally show ?thesis
    by (simp add: restartDockerServices_def ex)
qed

theorem restartDockerServices_short_circuit_witness:
  "list_all isOk (fst (runCommands testSys (map restartCommand [''web-service''])
                         (world state0))) \<and>
   \<not> isOk (fst (exec testSys
                   (snd (runCommands testSys (map restartCommand [''web-service''])
                           (world state0)))
                   (restartCommand ''api-service''))) \<and>
   fst (restartDockerServices testSys [''web-service'', ''api-service'', ''database''] state0)
     = False \<and>
   calls (snd (restartDockerServices testSys
                 [''web-service'', ''api-service'', ''database''] state0))
     = [''docker restart web-service'', ''docker restart api-service'']"
proof -
  have h1: "list_all isOk (fst (runCommands testSys (map restartCommand [''web-service''])
                                  (world state0)))"
    by (simp add: testSys_def restartCommand_def)
  have h2: "\<not> isOk (fst (exec testSys
                   (snd (runCommands testSys (map restartCommand [''web-service''])
                           (world state0)))
                   (restartCommand ''api-service'')))"
    by (simp add: testSys_def restartCommand_def)
  note c = restartDockerServices_short_circuit [OF h1 h2, where post = "[''database'']"]
  have r: "fst (restartDockerServices testSys
                  [''web-service'', ''api-service'', ''database''] state0) = False"
    using c by simp
  have k: "calls (snd (restartDockerServices testSys
                 [''web-service'', ''api-service'', ''database''] state0))
     = [''docker restart web-service'', ''docker restart api-service'']"
    using c by (simp add: restartCommand_def state0_def)
  from h1 h2 r k show ?thesis by blast
qed

text \<open>
  C6. The \<open>success\<close> flag of a result that \<open>handleWebhook\<close> returns is the conjunction of
  all recorded repository outcomes and the outcome of the service batch; a run whose
  result records one outcome as \<^verbatim>\<open>false\<close> has the flag \<^verbatim>\<open>false\<close>; and with no
  repository and no service configured the flag is \<^verbatim>\<open>true\<close>.
\<close>

theorem handleWebhook_success_conj:
  assumes "handleWebhook sys cfg payload s = (Inr res, s')"
  shows "success res = overallSucceeded (results.repositories res) (services res) \<and>
         ((\<exists>r \<in> set (results.repositories res). \<not> outcome_success r) \<or>
          (\<exists>v \<in> set (services res). \<not> batch_success v) \<longrightarrow> \<not> success res) \<and>
         handleWebhook sys (cfg\<lparr>config.repositories := [], dockerServices := []\<rparr>) payload s
           = (Inr \<lparr>results.repositories = [], services = [ServiceOutcome True],
                   success = True\<rparr>, s)"
proof -
  from handleWebhook_Inr [OF assms] obtain ok where
    res: "res = \<lparr>results.repositories = pullOutcomes sys (config.repositories cfg) s,
                 services = [ServiceOutcome ok],
                 success = (list_all outcome_success
                              (pullOutcomes sys (config.repositories cfg) s) \<and> ok)\<rparr>"
    by blast
  have a: "success res = overallSucceeded (results.repositories res) (services res)"
    by (simp add: res overallSucceeded_def)
  have b: "(\<exists>r \<in> set (results.repositories res). \<not> outcome_success r) \<or>
          (\<exists>v \<in> set (services res). \<not> batch_success v) \<longrightarrow> \<not> success res"
    unfolding a overallSucceeded_def by (auto simp: list_all_iff)
  have c: "handleWebhook sys (cfg\<lparr>config.repositories := [], dockerServices := []\<rparr>) payload s
           = (Inr \<lparr>results.repositories = [], services = [ServiceOutcome True],
                   success = True\<rparr>, s)"
    by (simp add: handleWebhook_def restartDockerServices_def)
  from a b c show ?thesis by blast
qed

theorem handleWebhook_success_conj_witness:
  "handleWebhook testSys testConfig ''{}'' state0 =
     (Inr \<lparr>results.repositories =
              [RepoOutcome ''my-app'' True, RepoOutcome ''my-service'' False,
               RepoOutcome ''docs'' True],
            services = [ServiceOutcome False], success = False\<rparr>,
      \<lparr>world = (),
       calls = [''cd \"/srv/my-app\" && git pull origin main'',
                ''cd \"/srv/docs\" && git pull origin develop'',
                ''docker restart web-service'', ''docker restart api-service'']\<rparr>) \<and>
   \<not> overallSucceeded
        [RepoOutcome ''my-app'' True, RepoOutcome ''my-service'' False,
         RepoOutcome ''docs'' True]
        [ServiceOutcome False] \<and>
   handleWebhook testSys (testConfig\<lparr>config.repositories := [], dockerServices := []\<rparr>)
       ''{}'' state0
     = (Inr \<lparr>results.repositories = [], services = [ServiceOutcome True],
             success = True\<rparr>, state0)"
proof -
  note h = handleWebhook_example
  note c = handleWebhook_success_conj [OF h]
  have a: "\<not> overallSucceeded
        [RepoOutcome ''my-app'' True, RepoOutcome ''my-service'' False,
         RepoOutcome ''docs'' True]
        [ServiceOutcome False]"
    using c by simp
  from h a c show ?thesis by blast
qed

text \<open>
  C8. A repository whose path does not exist as a directory: the specification, and the
  comment \<^verbatim>\<open>Check if directory exists\<close> above the guard, ask that \<open>pullRepository\<close>
  fails at once with \<^verbatim>\<open>false\<close> and runs no command. The guard is
  \<^verbatim>\<open>fs.existsSync\<close>, which a regular file passes: for the path
  \<^verbatim>\<open>/srv/notes.txt\<close> that holds a file, the pull command is handed to the shell, and
  the outcome is \<^verbatim>\<open>false\<close> only because the shell then refuses the \<^verbatim>\<open>cd\<close>.
\<close>

theorem pullRepository_regular_file_runs_command:
  "\<not> isDirectory notesDisk (path notesRepo) \<and>
   pullRepository diskSys (RepoObj notesRepo) \<lparr>world = notesDisk, calls = []\<rparr>
     = (Inr False,
        \<lparr>world = notesDisk,
         calls = [''cd \"/srv/notes.txt\" && git pull origin main'']\<rparr>)"
  by (simp add: isDirectory_def diskExistsSync_def notesDisk_def diskSys_def notesRepo_def
        code_defs)

text \<open>
  Where the guard does fire, at a path at which nothing exists when the repository's
  turn comes (\<^verbatim>\<open>fs.existsSync\<close> is false), \<open>pullRepository\<close>
  returns \<^verbatim>\<open>false\<close> and leaves the state as it was, so no command was run; and the
  run of \<open>handleWebhook\<close> is the run without that repository, with the failed entry put
  at its place and the \<open>success\<close> flag \<^verbatim>\<open>false\<close>: the entries of the other
  repositories, the outcome of the services and the commands run are the same.
\<close>

lemma pullRepository_missing_path:
  assumes "\<not> existsSync sys (world (afterPulls sys pre s)) (path rc)"
    and "handleWebhook sys (cfg\<lparr>config.repositories := pre @ post\<rparr>) payload s = (Inr res, s')"
  shows "pullRepository sys (RepoObj rc) (afterPulls sys pre s)
           = (Inr False, afterPulls sys pre s) \<and>
         handleWebhook sys (cfg\<lparr>config.repositories := pre @ RepoObj rc # post\<rparr>) payload s
           = (Inr (res\<lparr>results.repositories :=
                          take (length pre) (results.repositories res)
                            @ RepoOutcome (name rc) False
                            # drop (length pre) (results.repositories res),
                        success := False\<rparr>), s')"
proof -
  let ?s1 = "afterPulls sys pre s"
  have pr: "pullRepository sys (RepoObj rc) ?s1 = (Inr False, ?s1)"
    using assms(1) by (simp add: pullRepository_try_def)
  from handleWebhook_Inr [OF assms(2)] obtain ok where
    objs: "\<forall>e \<in> set (pre @ post). isObject e"
    and rd: "restartDockerServices sys (dockerServices cfg) (afterPulls sys (pre @ post) s)
               = (ok, s')"
    and res: "res = \<lparr>results.repositories = pullOutcomes sys (pre @ post) s,
                 services = [ServiceOutcome ok],
                 success = (list_all outcome_success (pullOutcomes sys (pre @ post) s) \<and> ok)\<rparr>"
    by auto
  from objs have pre: "\<forall>e \<in> set pre. isObject e" by simp
  from objs have all: "\<forall>e \<in> set (pre @ RepoObj rc # post). isObject e" by simp
  have ap: "afterPulls sys (pre @ RepoObj rc # post) s = afterPulls sys (pre @ post) s"
    by (simp only: afterPulls_append afterPulls_Cons pr snd_conv)
  have po: "pullOutcomes sys (pre @ RepoObj rc # post) s =
            pullOutcomes sys pre s @ RepoOutcome (name rc) False # pullOutcomes sys post ?s1"
    by (simp add: pullOutcomes_append [OF pre] pr del: pullRepository.simps)
  have po': "pullOutcomes sys (pre @ post) s = pullOutcomes sys pre s @ pullOutcomes sys post ?s1"
    by (rule pullOutcomes_append [OF pre])
  have len: "length (pullOutcomes sys pre s) = length pre"
    by (rule length_pullOutcomes [OF pre])
  have "handleWebhook sys (cfg\<lparr>config.repositories := pre @ RepoObj rc # post\<rparr>) payload s
         = (Inr \<lparr>results.repositories = pullOutcomes sys (pre @ RepoObj rc # post) s,
                 services = [ServiceOutcome ok], success = False\<rparr>, s')"
    by (cases ok) (simp_all add: handleWebhook_def pullLoop_objects [OF all] ap rd po Let_def)
  moreover have "res\<lparr>results.repositories :=
                          take (length pre) (results.repositories res)
                            @ RepoOutcome (name rc) False
                            # drop (length pre) (results.repositories res),
                        success := False\<rparr>
        = \<lparr>results.repositories = pullOutcomes sys (pre @ RepoObj rc # post) s,
                 services = [ServiceOutcome ok], success = False\<rparr>"
    by (simp add: res po po' len)
  ultimately show ?thesis using pr by simp
qed

lemma pullRepository_missing_path_example:
  "\<not> existsSync testSys (world (afterPulls testSys [RepoObj myApp] state0)) (path myService) \<and>
   handleWebhook testSys (testConfig\<lparr>config.repositories := [RepoObj myApp] @ [RepoObj docs]\<rparr>)
       ''{}'' state0
     = (Inr \<lparr>results.repositories = [RepoOutcome ''my-app'' True, RepoOutcome ''docs'' True],
             services = [ServiceOutcome False], success = False\<rparr>,
        \<lparr>world = (),
         calls = [''cd \"/srv/my-app\" && git pull origin main'',
                  ''cd \"/srv/docs\" && git pull origin develop'',
                  ''docker restart web-service'', ''docker restart api-service'']\<rparr>) \<and>
   pullRepository testSys (RepoObj myService) (afterPulls testSys [RepoObj myApp] state0)
     = (Inr False, afterPulls testSys [RepoObj myApp] state0) \<and>
   handleWebhook testSys
       (testConfig\<lparr>config.repositories := [RepoObj myApp] @ RepoObj myService # [RepoObj docs]\<rparr>)
       ''{}'' state0
     = (Inr \<lparr>results.repositories =
               [RepoOutcome ''my-app'' True, RepoOutcome ''my-service'' False,
                RepoOutcome ''docs'' True],
             services = [ServiceOutcome False], success = False\<rparr>,
        \<lparr>world = (),
         calls = [''cd \"/srv/my-app\" && git pull origin main'',
                  ''cd \"/srv/docs\" && git pull origin develop'',
                  ''docker restart web-service'', ''docker restart api-service'']\<rparr>)"
proof -
  have h1: "\<not> existsSync testSys (world (afterPulls testSys [RepoObj myApp] state0))
              (path myService)"
    by (simp add: testSys_def myService_def)
  have h2: "handleWebhook testSys
       (testConfig\<lparr>config.repositories := [RepoObj myApp] @ [RepoObj docs]\<rparr>) ''{}'' state0
     = (Inr \<lparr>results.repositories = [RepoOutcome ''my-app'' True, RepoOutcome ''docs'' True],
             services = [ServiceOutcome False], success = False\<rparr>,
        \<lparr>world = (),
         calls = [''cd \"/srv/my-app\" && git pull origin main'',
                  ''cd \"/srv/docs\" && git pull origin develop'',
                  ''docker restart web-service'', ''docker restart api-service'']\<rparr>)"
    by (simp add: test_defs code_defs)
  note c = pullRepository_missing_path [OF h1 h2]
  have n: "name myService = ''my-service''"
    by (simp add: myService_def)
  from c have c1: "pullRepository testSys (RepoObj myService)
                     (afterPulls testSys [RepoObj myApp] state0)
                   = (Inr False, afterPulls testSys [RepoObj myApp] state0)"
    by (rule conjunct1)
  from c have c2: "handleWebhook testSys
       (testConfig\<lparr>config.repositories := [RepoObj myApp] @ RepoObj myService # [RepoObj docs]\<rparr>)
       ''{}'' state0
     = (Inr \<lparr>results.repositories =
               [RepoOutcome ''my-app'' True, RepoOutcome ''my-service'' False,
                RepoOutcome ''docs'' True],
             services = [ServiceOutcome False], success = False\<rparr>,
        \<lparr>world = (),
         calls = [''cd \"/srv/my-app\" && git pull origin main'',
                  ''cd \"/srv/docs\" && git pull origin develop'',
                  ''docker restart web-service'', ''docker restart api-service'']\<rparr>)"
    by (simp add: n)
  from h1 h2 c1 c2 show ?thesis by blast
qed

text \<open>
  C9. When every configured repository entry is an object, \<open>handleWebhook\<close> returns a
  result and throws nothing, whatever the file system and the commands answer; so the
  handler never answers from its \<^verbatim>\<open>catch\<close> branch, the response with the
  \<^verbatim>\<open>error\<close> field of an internal server error.
\<close>

theorem handleWebhook_never_throws:
  assumes objects: "list_all isObject (config.repositories cfg)"
  shows "(\<exists>res s'. handleWebhook sys cfg payload s = (Inr res, s')) \<and>
         (\<forall>req msg e. fst (hookRefresh sys cfg req s)
                       \<noteq> Inr (Response 500 (InternalErrorBody msg e)))"
proof -
  from objects have assms: "\<forall>e \<in> set (config.repositories cfg). isObject e"
    by (simp add: list_all_iff)
  have ex: "\<exists>res s'. handleWebhook sys cfg p s = (Inr res, s')" for p
    by (cases "restartDockerServices sys (dockerServices cfg)
                 (afterPulls sys (config.repositories cfg) s)")
       (simp add: handleWebhook_def pullLoop_objects [OF assms] Let_def)
  have "fst (hookRefresh sys cfg req s) \<noteq> Inr (Response 500 (InternalErrorBody msg e))"
    for req msg e
    using ex [of "body req"]
    by (auto simp: hookRefresh_def hookRefresh_try_def Let_def split: sum.splits)
  with ex show ?thesis by blast
qed

theorem handleWebhook_never_throws_witness:
  "list_all isObject (config.repositories testConfig) \<and>
   (\<exists>res s'. handleWebhook testSys testConfig ''{}'' state0 = (Inr res, s')) \<and>
   (\<forall>req msg e. fst (hookRefresh testSys testConfig req state0)
                 \<noteq> Inr (Response 500 (InternalErrorBody msg e)))"
proof -
  have h: "list_all isObject (config.repositories testConfig)"
    by (simp add: testConfig_def)
  note c = handleWebhook_never_throws [OF h, where sys = testSys and payload = "''{}''"
             and s = state0]
  from h c show ?thesis by (rule conjI)
qed

text \<open>
  C10. \<open>handleWebhook\<close> does not read its payload argument: under the same configuration,
  in the same state of the world, two payloads give the same result and the same final
  state.
\<close>

theorem handleWebhook_payload_independent:
  "handleWebhook sys cfg payload1 s = handleWebhook sys cfg payload2 s"
  by (simp add: handleWebhook_def)

end
